theory Spec2Isabelle
  imports Main
begin

section \<open>Errors\<close>

text \<open>
  A Go \<open>error\<close> value; \<open>nil\<close> is \<open>None\<close> of \<open>error option\<close>.
  \<^item> \<open>ErrorString m\<close>: \<open>errors.New(m)\<close> and \<open>fmt.Errorf\<close> with the message \<open>m\<close>;
  \<^item> \<open>NetError m\<close>: an error reported by the connection (a failed read or write);
  \<^item> \<open>ErrNetClosing\<close>: the net package's "use of closed network connection";
  \<^item> \<open>ErrShortWrite\<close>: \<open>io.ErrShortWrite\<close>;
  \<^item> \<open>NumError f s k\<close>: \<open>&strconv.NumError{Func: f, Num: s, Err: k}\<close>.
\<close>

datatype num_err = ErrSyntax | ErrRange

datatype error =
    ErrorString string
  | NetError string
  | ErrNetClosing
  | ErrShortWrite
  | NumError string string num_err

section \<open>The line framer: \<open>isIgnore\<close> and \<open>scanLines\<close> (aquos.go)\<close>

text \<open>
  A Go \<open>[]byte\<close> and a Go \<open>string\<close> are sequences of bytes: \<open>string\<close> (a list of
  \<open>char\<close>, each one byte) models both. A slice that is \<open>nil\<close> is \<open>None\<close>; a slice that
  exists, also one of length zero, is \<open>Some\<close>.
\<close>

text \<open>
  Go checks every index and every slice expression at run time and panics when it is out
  of range. \<open>Done v\<close> is a normal result, \<open>RuntimePanic\<close> the panic.
\<close>

datatype 'a checked = Done 'a | RuntimePanic

text \<open>\<open>data[i]\<close>: panics unless \<open>i < len(data)\<close>.\<close>

definition index :: "string \<Rightarrow> nat \<Rightarrow> char checked" where
  "index data i = (if i < length data then Done (data ! i) else RuntimePanic)"

text \<open>
  \<open>data[lo:hi]\<close>: panics unless \<open>lo \<le> hi \<le> cap(data)\<close>. The model checks against
  \<open>len(data)\<close>, which is never more than the capacity, so it panics at least where Go does.
\<close>

definition slice :: "string \<Rightarrow> nat \<Rightarrow> nat \<Rightarrow> string checked" where
  "slice data lo hi =
     (if lo \<le> hi \<and> hi \<le> length data then Done (take (hi - lo) (drop lo data))
      else RuntimePanic)"

text \<open>\<open>func isIgnore(b byte) bool { return b == '\r' || b == '\n' || b == ':' }\<close>\<close>

definition isIgnore :: "char \<Rightarrow> bool" where
  "isIgnore b = (b = CHR 0x0D \<or> b = CHR 0x0A \<or> b = CHR '':'')"

text \<open>
  The first loop of \<open>scanLines\<close>:
  \<^verbatim>\<open>for ; start < len(data); start++ { if !isIgnore(data[start]) { break } }\<close>
  The result is the value of \<open>start\<close> when the loop is left.
\<close>

function skipIgnore :: "string \<Rightarrow> nat \<Rightarrow> nat checked" where
  "skipIgnore data start =
     (if start < length data then
        (case index data start of
           RuntimePanic \<Rightarrow> RuntimePanic
         | Done b \<Rightarrow> if \<not> isIgnore b then Done start else skipIgnore data (start + 1))
      else Done start)"
  by pat_completeness auto
termination
  by (relation "measure (\<lambda>(data, start). length data - start)") auto

text \<open>
  What \<open>scanLines\<close> returns: \<open>(advance, token, err)\<close>. \<open>advance\<close> is a Go \<open>int\<close>.
\<close>

type_synonym scanned = "int \<times> string option \<times> error option"

text \<open>
  The second loop:
  \<^verbatim>\<open>for i := start; i < len(data); i++ {
      if isIgnore(data[i]) { return i + 1, data[start:i], nil } }\<close>
  \<open>Done (Some r)\<close>: the function returned \<open>r\<close> from inside the loop;
  \<open>Done None\<close>: the loop ran to its end.
\<close>

function findIgnore :: "string \<Rightarrow> nat \<Rightarrow> nat \<Rightarrow> scanned option checked" where
  "findIgnore data start i =
     (if i < length data then
        (case index data i of
           RuntimePanic \<Rightarrow> RuntimePanic
         | Done b \<Rightarrow>
             if isIgnore b then
               (case slice data start i of
                  RuntimePanic \<Rightarrow> RuntimePanic
                | Done tok \<Rightarrow> Done (Some (int (i + 1), Some tok, None)))
             else findIgnore data start (i + 1))
      else Done None)"
  by pat_completeness auto
termination
  by (relation "measure (\<lambda>(data, start, i). length data - i)") auto

text \<open>
  \<^verbatim>\<open>func scanLines(data []byte, atEOF bool) (advance int, token []byte, err error) {
      if atEOF && len(data) == 0 { return 0, nil, nil }
      start := 0
      ... first loop ...
      ... second loop ...
      if atEOF && len(data) > start { return len(data), data[start:], nil }
      return start, nil, nil
  }\<close>
\<close>

definition scanLines :: "string \<Rightarrow> bool \<Rightarrow> scanned checked" where
  "scanLines data atEOF =
     (if atEOF \<and> length data = 0 then Done (0, None, None)
      else
        (case skipIgnore data 0 of
           RuntimePanic \<Rightarrow> RuntimePanic
         | Done start \<Rightarrow>
             (case findIgnore data start start of
                RuntimePanic \<Rightarrow> RuntimePanic
              | Done (Some r) \<Rightarrow> Done r
              | Done None \<Rightarrow>
                  if atEOF \<and> length data > start then
                    (case slice data start (length data) of
                       RuntimePanic \<Rightarrow> RuntimePanic
                     | Done tok \<Rightarrow> Done (int (length data), Some tok, None))
                  else Done (int start, None, None))))"

section \<open>Library functions the client calls\<close>

subsection \<open>\<open>utf8.RuneCountInString\<close> and \<open>fmt.Sprintf("%s%-4s", cmd, arg)\<close>\<close>

text \<open>
  \<open>fmt\<close> pads \<open>%-4s\<close> on the right with spaces up to a width of 4, and measures the
  width of the argument in runes (\<open>utf8.RuneCountInString\<close>), not in bytes. The table
  \<open>first\<close> of package \<open>utf8\<close>: for a leading byte, the length of the encoding and the
  range the second byte must lie in; \<open>None\<close> for a byte that starts no encoding.
\<close>

definition utf8_first :: "nat \<Rightarrow> (nat \<times> nat \<times> nat) option" where
  "utf8_first v =
     (if 0xC2 \<le> v \<and> v \<le> 0xDF then Some (2, 0x80, 0xBF)
      else if v = 0xE0 then Some (3, 0xA0, 0xBF)
      else if 0xE1 \<le> v \<and> v \<le> 0xEC then Some (3, 0x80, 0xBF)
      else if v = 0xED then Some (3, 0x80, 0x9F)
      else if v = 0xEE \<or> v = 0xEF then Some (3, 0x80, 0xBF)
      else if v = 0xF0 then Some (4, 0x90, 0xBF)
      else if 0xF1 \<le> v \<and> v \<le> 0xF3 then Some (4, 0x80, 0xBF)
      else if v = 0xF4 then Some (4, 0x80, 0x8F)
      else None)"

text \<open>
  The number of bytes one step of \<open>RuneCountInString\<close> moves on, for a string that
  starts with the byte \<open>c\<close> and goes on with \<open>s\<close>: 1 for an ASCII byte and for every
  invalid or cut-off encoding, else the length of the encoding. The bytes read with
  \<open>!\<close> exist: the test on the length comes first, as in the library.
\<close>

definition runeWidth :: "char \<Rightarrow> string \<Rightarrow> nat" where
  "runeWidth c s =
     (if (of_char c :: nat) < 0x80 then 1
      else
        (case utf8_first (of_char c) of
           None \<Rightarrow> 1
         | Some (sz, lo, hi) \<Rightarrow>
             if 1 + length s < sz then 1
             else if (of_char (s ! 0) :: nat) < lo \<or> hi < (of_char (s ! 0) :: nat) then 1
             else if sz = 2 then 2
             else if (of_char (s ! 1) :: nat) < 0x80 \<or> 0xBF < (of_char (s ! 1) :: nat) then 1
             else if sz = 3 then 3
             else if (of_char (s ! 2) :: nat) < 0x80 \<or> 0xBF < (of_char (s ! 2) :: nat) then 1
             else 4))"

fun RuneCountInString :: "string \<Rightarrow> nat" where
  "RuneCountInString [] = 0"
| "RuneCountInString (c # s) = Suc (RuneCountInString (drop (runeWidth c s - 1) s))"

text \<open>
  \<open>fmt.Sprintf("%s%-4s", cmd, arg)\<close>: \<open>cmd\<close> as it is, then \<open>arg\<close> followed by
  \<open>4 - RuneCountInString(arg)\<close> spaces when that is positive.
\<close>

definition Sprintf :: "string \<Rightarrow> string \<Rightarrow> string" where
  "Sprintf cmd arg = cmd @ arg @ replicate (4 - RuneCountInString arg) (CHR '' '')"

subsection \<open>\<open>strings.Contains\<close>\<close>

fun Contains :: "string \<Rightarrow> string \<Rightarrow> bool" where
  "Contains [] substr = (substr = [])"
| "Contains (c # s) substr = (take (length substr) (c # s) = substr \<or> Contains s substr)"

subsection \<open>\<open>strconv.Atoi\<close>\<close>

text \<open>
  \<open>Atoi\<close> for a 64-bit \<open>int\<close>: an optional sign, then one or more decimal digits. The
  digits are read from the left; a byte that is no digit is a syntax error, a value that
  no longer fits 64 unsigned bits is a range error, whichever comes first; a value that
  fits them and does not fit the signed \<open>int\<close> is a range error at the end.
\<close>

definition isDigit :: "char \<Rightarrow> bool" where
  "isDigit c = (48 \<le> (of_char c :: nat) \<and> (of_char c :: nat) \<le> 57)"

fun parseDigits :: "string \<Rightarrow> nat \<Rightarrow> num_err + nat" where
  "parseDigits [] n = Inr n"
| "parseDigits (c # cs) n =
     (if \<not> isDigit c then Inl ErrSyntax
      else if 2 ^ 64 \<le> n * 10 + (of_char c - 48) then Inl ErrRange
      else parseDigits cs (n * 10 + (of_char c - 48)))"

definition Atoi :: "string \<Rightarrow> error + int" where
  "Atoi s =
     (let neg = (take 1 s = ''-'');
          ds = (if take 1 s = ''-'' \<or> take 1 s = ''+'' then drop 1 s else s)
      in if ds = [] then Inl (NumError ''Atoi'' s ErrSyntax)
         else
           (case parseDigits ds 0 of
              Inl k \<Rightarrow> Inl (NumError ''Atoi'' s k)
            | Inr n \<Rightarrow>
                if \<not> neg \<and> 2 ^ 63 \<le> n then Inl (NumError ''Atoi'' s ErrRange)
                else if neg \<and> 2 ^ 63 < n then Inl (NumError ''Atoi'' s ErrRange)
                else Inr (if neg then - int n else int n)))"

section \<open>The connection, the buffered writer and the response channel\<close>

text \<open>
  \<^verbatim>\<open>type response struct { text string; err error }\<close>
  (\<open>text\<close> is a keyword of Isabelle: the fields are \<open>r_text\<close> and \<open>r_err\<close>.)
\<close>

record response =
  r_text :: string
  r_err :: "error option"

text \<open>The zero value of \<open>response\<close>, which a receive from a closed channel yields.\<close>

definition zero_response :: response where
  "zero_response = \<lparr>r_text = [], r_err = None\<rparr>"

text \<open>
  What an observer of the connection sees, in order: \<open>Sent p\<close>, the bytes one call of
  \<open>conn.Write\<close> handed to the stream; \<open>Got r\<close>, a Response Record the caller took from
  the channel.
\<close>

datatype event = Sent string | Got response

text \<open>
  The \<open>net.Conn\<close> that \<open>Connect\<close> dials, as far as the client uses it.
  \<^item> \<open>faults\<close> is the environment's script for the coming calls of \<open>Write\<close>, one entry a
    call: \<open>None\<close>, the stream takes all the bytes; \<open>Some (n, e)\<close>, it takes at most \<open>n\<close>
    of them and reports \<open>e\<close>. After the script every call succeeds.
  \<^item> \<open>shut\<close>: \<open>Close\<close> has been called on it.
  \<^item> \<open>history\<close>: the events so far, oldest first (a ghost field: it records, nothing
    reads it).
\<close>

record netConn =
  faults :: "(nat \<times> error) option list"
  shut :: bool
  history :: "event list"

text \<open>
  \<open>conn.Write(p)\<close> returns \<open>(n, err)\<close>. On a connection that was closed it writes
  nothing and fails with "use of closed network connection".
\<close>

definition conn_Write :: "netConn \<Rightarrow> string \<Rightarrow> nat \<times> error option \<times> netConn" where
  "conn_Write cn p =
     (if shut cn then (0, Some ErrNetClosing, cn)
      else
        (case faults cn of
           [] \<Rightarrow> (length p, None, cn\<lparr>history := history cn @ [Sent p]\<rparr>)
         | None # fs \<Rightarrow> (length p, None, cn\<lparr>faults := fs, history := history cn @ [Sent p]\<rparr>)
         | Some (n, e) # fs \<Rightarrow>
             (min n (length p), Some e,
              cn\<lparr>faults := fs,
                 history := history cn @
                   (if min n (length p) = 0 then [] else [Sent (take n p)])\<rparr>)))"

text \<open>
  \<open>conn.Close()\<close> of a TCP connection: the first call closes it and returns \<open>nil\<close>; a
  call on a closed connection returns "use of closed network connection".
\<close>

definition conn_Close :: "netConn \<Rightarrow> error option \<times> netConn" where
  "conn_Close cn = (if shut cn then (Some ErrNetClosing, cn) else (None, cn\<lparr>shut := True\<rparr>))"

text \<open>
  A \<open>bufio.Writer\<close>: \<open>buf\<close> holds the bytes buffered and not yet written (the library's
  \<open>b.buf[0:b.n]\<close>), \<open>werr\<close> is its sticky error \<open>b.err\<close>. The connection it writes to is
  the client's \<open>conn\<close>: the functions below take it as an argument and return it.
  \<open>bufio.NewWriter\<close> gives the buffer \<open>defaultBufSize\<close> bytes.
\<close>

record Writer =
  buf :: string
  werr :: "error option"

definition defaultBufSize :: nat where
  "defaultBufSize = 4096"

definition NewWriter :: Writer where
  "NewWriter = \<lparr>buf = [], werr = None\<rparr>"

definition Available :: "Writer \<Rightarrow> nat" where
  "Available b = defaultBufSize - length (buf b)"

text \<open>
  \<^verbatim>\<open>func (b *Writer) Flush() error {
      if b.err != nil { return b.err }
      if b.n == 0 { return nil }
      n, err := b.wr.Write(b.buf[0:b.n])
      if n < b.n && err == nil { err = io.ErrShortWrite }
      if err != nil {
          if n > 0 && n < b.n { copy(b.buf[0:b.n-n], b.buf[n:b.n]) }
          b.n -= n; b.err = err; return err
      }
      b.n = 0
      return nil
  }\<close>
\<close>

definition Flush :: "Writer \<Rightarrow> netConn \<Rightarrow> error option \<times> Writer \<times> netConn" where
  "Flush b cn =
     (if werr b \<noteq> None then (werr b, b, cn)
      else if buf b = [] then (None, b, cn)
      else
        (case conn_Write cn (buf b) of
           (n, e, cn') \<Rightarrow>
             (let e' = (if n < length (buf b) \<and> e = None then Some ErrShortWrite else e)
              in if e' \<noteq> None then (e', b\<lparr>buf := drop n (buf b), werr := e'\<rparr>, cn')
                 else (None, b\<lparr>buf := []\<rparr>, cn'))))"

text \<open>
  \<^verbatim>\<open>func (b *Writer) WriteString(s string) (int, error) {
      nn := 0
      for len(s) > b.Available() && b.err == nil {
          n := copy(b.buf[b.n:], s); b.n += n; b.Flush()
          nn += n; s = s[n:]
      }
      if b.err != nil { return nn, b.err }
      n := copy(b.buf[b.n:], s); b.n += n; nn += n
      return nn, nil
  }\<close>
  (The library's short cut for a destination that has a \<open>WriteString\<close> of its own does
  not apply: a TCP connection has none.)
\<close>

function WriteString ::
  "Writer \<Rightarrow> netConn \<Rightarrow> string \<Rightarrow> nat \<Rightarrow> nat \<times> error option \<times> Writer \<times> netConn" where
  "WriteString b cn s nn =
     (if length s > Available b \<and> werr b = None then
        (case Flush (b\<lparr>buf := buf b @ take (Available b) s\<rparr>) cn of
           (e, b', cn') \<Rightarrow> WriteString b' cn' (drop (Available b) s) (nn + Available b))
      else if werr b \<noteq> None then (nn, werr b, b, cn)
      else (nn + length s, None, b\<lparr>buf := buf b @ s\<rparr>, cn))"
  by pat_completeness auto

termination
proof (relation "measures [\<lambda>(b, cn, s, nn). length s,
    \<lambda>(b, cn, s, nn). if werr b \<noteq> None then 0 else if Available b = 0 then 2 else (1::nat)]",
    goal_cases)
  case 1
  show ?case by simp
next
  case (2 b cn s nn e y b' cn')
  then have big: "Available b < length s" and ok: "werr b = None"
    and fl: "Flush (b\<lparr>buf := buf b @ take (Available b) s\<rparr>) cn = (e, b', cn')"
    by simp_all
  show ?case
  proof (cases "Available b = 0")
    case False
    with big have "length (drop (Available b) s) < length s" by simp
    then show ?thesis by simp
  next
    case True
    then have full: "buf b \<noteq> []" by (auto simp: Available_def defaultBufSize_def)
    from fl True ok full have "werr b' \<noteq> None \<or> buf b' = []"
      by (auto simp: Flush_def Let_def split: prod.splits if_splits)
    then have "werr b' \<noteq> None \<or> Available b' \<noteq> 0"
      by (auto simp: Available_def defaultBufSize_def)
    with True ok show ?thesis by auto
  qed
qed

text \<open>
  \<^verbatim>\<open>func (b *Writer) WriteByte(c byte) error {
      if b.err != nil { return b.err }
      if b.Available() <= 0 && b.Flush() != nil { return b.err }
      b.buf[b.n] = c; b.n++
      return nil
  }\<close>
\<close>

definition WriteByte :: "Writer \<Rightarrow> netConn \<Rightarrow> char \<Rightarrow> error option \<times> Writer \<times> netConn" where
  "WriteByte b cn ch =
     (if werr b \<noteq> None then (werr b, b, cn)
      else if Available b \<le> 0 then
        (case Flush b cn of
           (e, b', cn') \<Rightarrow>
             if e \<noteq> None then (werr b', b', cn')
             else (None, b'\<lparr>buf := buf b' @ [ch]\<rparr>, cn'))
      else (None, b\<lparr>buf := buf b @ [ch]\<rparr>, cn))"

text \<open>
  The channel \<open>res\<close> as the caller will see it. The reader task and the device decide
  what arrives and when; \<open>queue\<close> is that future, in order: \<open>Rec r\<close>, the reader
  publishes the Response Record \<open>r\<close>; \<open>Silence d\<close>, nothing arrives for the duration
  \<open>d\<close> (nanoseconds, as \<open>time.Duration\<close>). \<open>closed\<close>: once the queue is used up the
  channel is closed (the reader has returned); otherwise it stays open and silent.
\<close>

datatype item = Rec response | Silence int

record chan =
  queue :: "item list"
  closed :: bool

text \<open>
  \<^verbatim>\<open>select { case <-time.After(timeout): ...  case r := <-c.res: ... }\<close>
  \<open>TimedOut\<close>: the timer fired first; \<open>Selected r ok\<close>: the receive came first, with
  \<open>ok = False\<close> and the zero value when the channel is closed.
\<close>

datatype selected = TimedOut chan | Selected response bool chan

fun select_recv :: "int \<Rightarrow> item list \<Rightarrow> bool \<Rightarrow> selected" where
  "select_recv t [] cl =
     (if cl then Selected zero_response False \<lparr>queue = [], closed = cl\<rparr>
      else TimedOut \<lparr>queue = [], closed = cl\<rparr>)"
| "select_recv t (Rec r # q) cl = Selected r True \<lparr>queue = q, closed = cl\<rparr>"
| "select_recv t (Silence d # q) cl =
     (if t \<le> d then TimedOut \<lparr>queue = Silence (d - t) # q, closed = cl\<rparr>
      else select_recv (t - d) q cl)"

text \<open>
  \<^verbatim>\<open>r, ok := <-c.res\<close> without a timer: it waits through every silence.
  \<open>BlockedForever\<close>: nothing arrives any more and the channel stays open.
\<close>

datatype received = Received response bool chan | BlockedForever

fun recv :: "item list \<Rightarrow> bool \<Rightarrow> received" where
  "recv [] cl =
     (if cl then Received zero_response False \<lparr>queue = [], closed = cl\<rparr> else BlockedForever)"
| "recv (Rec r # q) cl = Received r True \<lparr>queue = q, closed = cl\<rparr>"
| "recv (Silence d # q) cl = recv q cl"

text \<open>
  \<^verbatim>\<open>func (c *Client) readLoop() {
      defer func() { close(c.res) }()
      s := bufio.NewScanner(c.conn); s.Split(scanLines)
      for {
          if s.Scan() { c.res <- response{text: s.Text()} }
          else { c.res <- response{err: s.Err()}; return }
      }
  }\<close>
  The scanner is given by what its calls of \<open>Scan\<close> yield: the tokens of the calls that
  return true, then the \<open>Err()\<close> of the call that returns false. The records the loop
  publishes, and the closing of the channel when it returns:
\<close>

definition readLoop :: "string list \<Rightarrow> error option \<Rightarrow> chan" where
  "readLoop tokens e =
     \<lparr>queue = map (\<lambda>t. Rec \<lparr>r_text = t, r_err = None\<rparr>) tokens @ [Rec \<lparr>r_text = [], r_err = e\<rparr>],
      closed = True\<rparr>"

section \<open>The client (aquos.go)\<close>

text \<open>
  \<^verbatim>\<open>type Client struct {
      Username, Password string; LoginTimeout time.Duration
      conn net.Conn; w *bufio.Writer; res chan response
      name, modelName, softwareVersion, ipProtocolVersion string
  }\<close>
  \<open>conn\<close> is \<open>None\<close> for \<open>nil\<close>. \<open>Connect\<close> sets \<open>conn\<close>, \<open>w\<close> and \<open>res\<close> together and
  nothing else assigns them, so \<open>w\<close> and \<open>res\<close> are \<open>nil\<close> exactly when \<open>conn\<close> is: the
  fields \<open>w\<close> and \<open>res\<close> of the model mean something only when \<open>conn\<close> is not \<open>None\<close>.
\<close>

record Client =
  Username :: string
  Password :: string
  LoginTimeout :: int
  conn :: "netConn option"
  w :: Writer
  res :: chan
  name :: string
  modelName :: string
  softwareVersion :: string
  ipProtocolVersion :: string

text \<open>\<open>var DefaultLoginTimeout = 200 * time.Millisecond\<close>, in nanoseconds.\<close>

definition DefaultLoginTimeout :: int where
  "DefaultLoginTimeout = 200 * 1000000"

text \<open>
  How a call of a method ends: \<open>Returns v c\<close>, it returns \<open>v\<close> and leaves the client
  \<open>c\<close>; \<open>Blocks c\<close>, it waits for ever on the channel, the client being \<open>c\<close>;
  \<open>Panics\<close>, a run-time panic (a nil pointer).
\<close>

datatype 'a outcome = Returns 'a Client | Blocks Client | Panics

text \<open>The event \<open>Got r\<close> for a record that was really received.\<close>

definition took :: "bool \<Rightarrow> response \<Rightarrow> netConn \<Rightarrow> netConn" where
  "took ok r cn = (if ok then cn\<lparr>history := history cn @ [Got r]\<rparr> else cn)"

text \<open>
  \<^verbatim>\<open>func (c *Client) send(str string) (err error) {
      _, err = c.w.WriteString(str)
      if err != nil { return }
      c.w.WriteByte('\r')
      if err != nil { return }
      err = c.w.Flush()
      if err != nil { return }
      return
  }\<close>
  The result of \<open>WriteByte\<close> is dropped, and the test after it reads the \<open>err\<close> of
  \<open>WriteString\<close>, which is \<open>nil\<close> there. On a client that is not connected \<open>c.w\<close> is
  \<open>nil\<close> and \<open>WriteString\<close> panics.
\<close>

definition send :: "Client \<Rightarrow> string \<Rightarrow> error option outcome" where
  "send c str =
     (case conn c of
        None \<Rightarrow> Panics
      | Some cn \<Rightarrow>
          (case WriteString (w c) cn str 0 of
             (n, e1, b1, cn1) \<Rightarrow>
               if e1 \<noteq> None then Returns e1 (c\<lparr>conn := Some cn1, w := b1\<rparr>)
               else
                 (case WriteByte b1 cn1 (CHR 0x0D) of
                    (e2, b2, cn2) \<Rightarrow>
                      (case Flush b2 cn2 of
                         (e3, b3, cn3) \<Rightarrow> Returns e3 (c\<lparr>conn := Some cn3, w := b3\<rparr>)))))"

text \<open>
  \<^verbatim>\<open>func (c *Client) readLine() (string, error) {
      r, ok := <-c.res
      if !ok { return "", errors.New("connection already closed") }
      if r.err != nil { return "", r.err }
      return r.text, nil
  }\<close>
  On a client that is not connected \<open>c.res\<close> is \<open>nil\<close>, and a receive from a \<open>nil\<close>
  channel blocks for ever.
\<close>

definition readLine :: "Client \<Rightarrow> (string \<times> error option) outcome" where
  "readLine c =
     (case conn c of
        None \<Rightarrow> Blocks c
      | Some cn \<Rightarrow>
          (case recv (queue (res c)) (closed (res c)) of
             BlockedForever \<Rightarrow> Blocks c
           | Received r ok ch \<Rightarrow>
               if \<not> ok then
                 Returns ([], Some (ErrorString ''connection already closed''))
                   (c\<lparr>conn := Some (took ok r cn), res := ch\<rparr>)
               else if r_err r \<noteq> None then
                 Returns ([], r_err r) (c\<lparr>conn := Some (took ok r cn), res := ch\<rparr>)
               else Returns (r_text r, None) (c\<lparr>conn := Some (took ok r cn), res := ch\<rparr>)))"

text \<open>
  \<^verbatim>\<open>func (c *Client) sendCommand(cmd, arg string) (res string, err error) {
      err = c.send(fmt.Sprintf("%s%-4s", cmd, arg))
      if err != nil { return }
      res, err = c.readLine()
      if err != nil { return }
      if res == "ERR" { err = errors.New("aquos returns a error"); return }
      return
  }\<close>
  The results are named: a bare \<open>return\<close> returns the current \<open>res\<close> and \<open>err\<close>.
\<close>

definition sendCommand :: "Client \<Rightarrow> string \<Rightarrow> string \<Rightarrow> (string \<times> error option) outcome" where
  "sendCommand c cmd arg =
     (case send c (Sprintf cmd arg) of
        Panics \<Rightarrow> Panics
      | Blocks c' \<Rightarrow> Blocks c'
      | Returns e c1 \<Rightarrow>
          if e \<noteq> None then Returns ([], e) c1
          else
            (case readLine c1 of
               Panics \<Rightarrow> Panics
             | Blocks c' \<Rightarrow> Blocks c'
             | Returns (r, e') c2 \<Rightarrow>
                 if e' \<noteq> None then Returns (r, e') c2
                 else if r = ''ERR'' then Returns (r, Some (ErrorString ''aquos returns a error'')) c2
                 else Returns (r, None) c2))"

text \<open>
  One \<open>select\<close> of \<open>login\<close>, the timer against the channel: \<open>None\<close> when the timer
  fires first, \<open>Some r\<close> when \<open>r\<close> is received first. A \<open>nil\<close> channel is never ready.
\<close>

definition select_res :: "Client \<Rightarrow> int \<Rightarrow> response option \<times> Client" where
  "select_res c t =
     (case conn c of
        None \<Rightarrow> (None, c)
      | Some cn \<Rightarrow>
          (case select_recv t (queue (res c)) (closed (res c)) of
             TimedOut ch \<Rightarrow> (None, c\<lparr>res := ch\<rparr>)
           | Selected r ok ch \<Rightarrow> (Some r, c\<lparr>conn := Some (took ok r cn), res := ch\<rparr>)))"

text \<open>
  \<open>login\<close>, from its last \<open>select\<close> to its first.
  \<^verbatim>\<open>select {
      case <-time.After(timeout):   // login success
      case r := <-c.res:
          if r.err != nil { return r.err }
          return fmt.Errorf("failed to login (%s)", r.text)
  }
  return nil\<close>
\<close>

definition login_outcome :: "Client \<Rightarrow> int \<Rightarrow> error option outcome" where
  "login_outcome c t =
     (case select_res c t of
        (None, c1) \<Rightarrow> Returns None c1
      | (Some r, c1) \<Rightarrow>
          if r_err r \<noteq> None then Returns (r_err r) c1
          else Returns (Some (ErrorString (''failed to login ('' @ r_text r @ '')''))) c1)"

text \<open>
  \<^verbatim>\<open>select {
      case <-time.After(timeout):
          return errors.New("failed to login (AQUOS does not respond)")
      case r := <-c.res:
          if r.err != nil { return r.err }
          if !strings.Contains(r.text, "Password") {
              return errors.New("failed to login (invalid response)") }
          if c.Password == "" { return errors.New("Password is not specified") }
          err = c.send(c.Password)
          if err != nil { return err }
  }\<close>
\<close>

definition login_password :: "Client \<Rightarrow> int \<Rightarrow> error option outcome" where
  "login_password c t =
     (case select_res c t of
        (None, c1) \<Rightarrow> Returns (Some (ErrorString ''failed to login (AQUOS does not respond)'')) c1
      | (Some r, c1) \<Rightarrow>
          if r_err r \<noteq> None then Returns (r_err r) c1
          else if \<not> Contains (r_text r) ''Password'' then
            Returns (Some (ErrorString ''failed to login (invalid response)'')) c1
          else if Password c1 = [] then
            Returns (Some (ErrorString ''Password is not specified'')) c1
          else
            (case send c1 (Password c1) of
               Panics \<Rightarrow> Panics
             | Blocks c' \<Rightarrow> Blocks c'
             | Returns e c2 \<Rightarrow> if e \<noteq> None then Returns e c2 else login_outcome c2 t))"

text \<open>
  \<^verbatim>\<open>func (c *Client) login() error {
      timeout := c.LoginTimeout
      if timeout <= 0 { timeout = DefaultLoginTimeout }
      select {
      case <-time.After(timeout):
          return nil                 // time out (login not required)
      case r := <-c.res:
          if r.err != nil { return r.err }
          if !strings.Contains(r.text, "Login") {
              return errors.New("failed to login (invalid response)") }
          if c.Username == "" { return errors.New("username is not specified") }
          err = c.send(c.Username)
          if err != nil { return err }
      }
      ... the second and the third select ...
  }\<close>
\<close>

definition login :: "Client \<Rightarrow> error option outcome" where
  "login c =
     (let timeout = (if LoginTimeout c \<le> 0 then DefaultLoginTimeout else LoginTimeout c)
      in case select_res c timeout of
           (None, c1) \<Rightarrow> Returns None c1
         | (Some r, c1) \<Rightarrow>
             if r_err r \<noteq> None then Returns (r_err r) c1
             else if \<not> Contains (r_text r) ''Login'' then
               Returns (Some (ErrorString ''failed to login (invalid response)'')) c1
             else if Username c1 = [] then
               Returns (Some (ErrorString ''username is not specified'')) c1
             else
               (case send c1 (Username c1) of
                  Panics \<Rightarrow> Panics
                | Blocks c' \<Rightarrow> Blocks c'
                | Returns e c2 \<Rightarrow> if e \<noteq> None then Returns e c2 else login_password c2 timeout))"

text \<open>
  \<^verbatim>\<open>func (c *Client) getInfo() error {
      var err error
      c.name, err = c.sendCommand("TVNM", "1")
      if err != nil { return err }
      c.modelName, err = c.sendCommand("MNRD", "1")
      if err != nil { return err }
      c.softwareVersion, err = c.sendCommand("SWVN", "1")
      if err != nil { return err }
      c.ipProtocolVersion, err = c.sendCommand("IPPV", "1")
      if err != nil { return err }
      return nil
  }\<close>
  Each field is assigned before the error is looked at.
\<close>

definition getInfo :: "Client \<Rightarrow> error option outcome" where
  "getInfo c =
     (case sendCommand c ''TVNM'' ''1'' of
        Panics \<Rightarrow> Panics
      | Blocks c' \<Rightarrow> Blocks c'
      | Returns (r1, e1) c1 \<Rightarrow>
          if e1 \<noteq> None then Returns e1 (c1\<lparr>name := r1\<rparr>)
          else
            (case sendCommand (c1\<lparr>name := r1\<rparr>) ''MNRD'' ''1'' of
               Panics \<Rightarrow> Panics
             | Blocks c' \<Rightarrow> Blocks c'
             | Returns (r2, e2) c2 \<Rightarrow>
                 if e2 \<noteq> None then Returns e2 (c2\<lparr>modelName := r2\<rparr>)
                 else
                   (case sendCommand (c2\<lparr>modelName := r2\<rparr>) ''SWVN'' ''1'' of
                      Panics \<Rightarrow> Panics
                    | Blocks c' \<Rightarrow> Blocks c'
                    | Returns (r3, e3) c3 \<Rightarrow>
                        if e3 \<noteq> None then Returns e3 (c3\<lparr>softwareVersion := r3\<rparr>)
                        else
                          (case sendCommand (c3\<lparr>softwareVersion := r3\<rparr>) ''IPPV'' ''1'' of
                             Panics \<Rightarrow> Panics
                           | Blocks c' \<Rightarrow> Blocks c'
                           | Returns (r4, e4) c4 \<Rightarrow>
                               if e4 \<noteq> None then Returns e4 (c4\<lparr>ipProtocolVersion := r4\<rparr>)
                               else Returns None (c4\<lparr>ipProtocolVersion := r4\<rparr>)))))"

text \<open>
  \<^verbatim>\<open>func (c *Client) Connect(ctx context.Context, address string) error {
      conn, err := dialer.DialContext(ctx, "tcp", address)
      if err != nil { return err }
      c.conn = conn
      c.w = bufio.NewWriter(conn)
      c.res = make(chan response)
      go c.readLoop()
      err = c.login()
      if err != nil { return err }
      err = c.getInfo()
      if err != nil { return err }
      return nil
  }\<close>
  The environment gives what the dial yields: an error, or a connection together with
  what the reader started on it will deliver.
\<close>

definition Connect :: "Client \<Rightarrow> error + netConn \<times> chan \<Rightarrow> error option outcome" where
  "Connect c dial =
     (case dial of
        Inl e \<Rightarrow> Returns (Some e) c
      | Inr (cn, ch) \<Rightarrow>
          (case login (c\<lparr>conn := Some cn, w := NewWriter, res := ch\<rparr>) of
             Panics \<Rightarrow> Panics
           | Blocks c' \<Rightarrow> Blocks c'
           | Returns e c1 \<Rightarrow> if e \<noteq> None then Returns e c1 else getInfo c1))"

text \<open>
  \<^verbatim>\<open>func (c *Client) Close() error {
      if c.conn == nil { return nil }
      return c.conn.Close()
  }\<close>
\<close>

definition Close :: "Client \<Rightarrow> error option outcome" where
  "Close c =
     (case conn c of
        None \<Rightarrow> Returns None c
      | Some cn \<Rightarrow> (case conn_Close cn of (e, cn') \<Rightarrow> Returns e (c\<lparr>conn := Some cn'\<rparr>)))"

text \<open>The read accessors: \<open>func (c *Client) Name() string { return c.name }\<close> and so on.\<close>

definition Name :: "Client \<Rightarrow> string" where
  "Name c = name c"

definition ModelName :: "Client \<Rightarrow> string" where
  "ModelName c = modelName c"

definition SoftwareVersion :: "Client \<Rightarrow> string" where
  "SoftwareVersion c = softwareVersion c"

definition IPProtocolVersion :: "Client \<Rightarrow> string" where
  "IPProtocolVersion c = ipProtocolVersion c"

text \<open>
  \<^verbatim>\<open>func (c *Client) Power(on bool) error {
      arg := "0"
      if on { arg = "1" }
      _, err := c.sendCommand("POWR", arg)
      return err
  }\<close>
\<close>

definition Power :: "Client \<Rightarrow> bool \<Rightarrow> error option outcome" where
  "Power c on =
     (case sendCommand c ''POWR'' (if on then ''1'' else ''0'') of
        Panics \<Rightarrow> Panics
      | Blocks c' \<Rightarrow> Blocks c'
      | Returns (r, e) c1 \<Rightarrow> Returns e c1)"

text \<open>
  \<^verbatim>\<open>func (c *Client) Volume() (int, error) {
      res, err := c.sendCommand("VOLM", "?")
      if err != nil { return 0, err }
      volume, err := strconv.Atoi(res)
      if err != nil { return 0, err }
      return volume, nil
  }\<close>
\<close>

definition Volume :: "Client \<Rightarrow> (int \<times> error option) outcome" where
  "Volume c =
     (case sendCommand c ''VOLM'' ''?'' of
        Panics \<Rightarrow> Panics
      | Blocks c' \<Rightarrow> Blocks c'
      | Returns (r, e) c1 \<Rightarrow>
          if e \<noteq> None then Returns (0, e) c1
          else
            (case Atoi r of
               Inl e' \<Rightarrow> Returns (0, Some e') c1
             | Inr v \<Rightarrow> Returns (v, None) c1))"

text \<open>The chunks that reached the stream, in order, and the whole history.\<close>

definition events :: "Client \<Rightarrow> event list" where
  "events c = (case conn c of None \<Rightarrow> [] | Some cn \<Rightarrow> history cn)"

fun sent_chunks :: "event list \<Rightarrow> string list" where
  "sent_chunks [] = []"
| "sent_chunks (Sent p # es) = p # sent_chunks es"
| "sent_chunks (Got r # es) = sent_chunks es"

section \<open>Properties of the line framer\<close>

declare skipIgnore.simps [simp del] findIgnore.simps [simp del]

lemma skipIgnore_eq:
  "start \<le> length data \<Longrightarrow>
   skipIgnore data start = Done (start + length (takeWhile isIgnore (drop start data)))"
proof (induction data start rule: skipIgnore.induct)
  case (1 data start)
  show ?case
  proof (cases "start < length data")
    case False
    with "1.prems" show ?thesis by (subst skipIgnore.simps) simp
  next
    case True
    then have d: "drop start data = data ! start # drop (Suc start) data"
      by (simp add: Cons_nth_drop_Suc)
    show ?thesis
    proof (cases "isIgnore (data ! start)")
      case False
      with True d show ?thesis by (subst skipIgnore.simps) (simp add: index_def)
    next
      case ig: True
      from True have "Suc start \<le> length data" by simp
      with "1.IH"[of "data ! start"] True ig
      have "skipIgnore data (start + 1) =
            Done (start + 1 + length (takeWhile isIgnore (drop (start + 1) data)))"
        by (simp add: index_def)
      with True ig d show ?thesis by (subst skipIgnore.simps) (simp add: index_def)
    qed
  qed
qed

lemma findIgnore_eq:
  "start \<le> i \<Longrightarrow> i \<le> length data \<Longrightarrow>
   findIgnore data start i =
     (if i + length (takeWhile (\<lambda>b. \<not> isIgnore b) (drop i data)) < length data then
        Done (Some (int (i + length (takeWhile (\<lambda>b. \<not> isIgnore b) (drop i data)) + 1),
                    Some (take (i + length (takeWhile (\<lambda>b. \<not> isIgnore b) (drop i data)) - start)
                            (drop start data)),
                    None))
      else Done None)"
proof (induction data start i rule: findIgnore.induct)
  case (1 data start i)
  show ?case
  proof (cases "i < length data")
    case False
    with "1.prems" show ?thesis by (subst findIgnore.simps) simp
  next
    case True
    then have d: "drop i data = data ! i # drop (Suc i) data"
      by (simp add: Cons_nth_drop_Suc)
    show ?thesis
    proof (cases "isIgnore (data ! i)")
      case ig: True
      with True d "1.prems" show ?thesis
        by (subst findIgnore.simps) (simp add: index_def slice_def)
    next
      case False
      have ix: "index data i = Done (data ! i)" using True by (simp add: index_def)
      from True "1.prems" have b: "start \<le> i + 1" "i + 1 \<le> length data" by simp_all
      note ih = "1.IH"[OF True ix False b]
      show ?thesis
        by (subst findIgnore.simps) (use True False d ih in \<open>simp add: index_def\<close>)
    qed
  qed
qed

text \<open>
  What \<open>scanLines\<close> computes, without the loops: with \<open>rest\<close> the buffer after its
  leading ignorable bytes and \<open>body\<close> the bytes of \<open>rest\<close> before its first ignorable one.
\<close>

lemma scanLines_eq:
  "scanLines data atEOF =
     (if atEOF \<and> data = [] then Done (0, None, None)
      else if length (takeWhile (\<lambda>b. \<not> isIgnore b) (dropWhile isIgnore data))
                < length (dropWhile isIgnore data)
      then Done (int (length (takeWhile isIgnore data)
                      + length (takeWhile (\<lambda>b. \<not> isIgnore b) (dropWhile isIgnore data)) + 1),
                 Some (takeWhile (\<lambda>b. \<not> isIgnore b) (dropWhile isIgnore data)), None)
      else if atEOF \<and> dropWhile isIgnore data \<noteq> []
      then Done (int (length data), Some (dropWhile isIgnore data), None)
      else Done (int (length (takeWhile isIgnore data)), None, None))"
proof -
  let ?start = "length (takeWhile isIgnore data)"
  let ?rest = "dropWhile isIgnore data"
  let ?k = "length (takeWhile (\<lambda>b. \<not> isIgnore b) ?rest)"
  have le: "?start \<le> length data" by (rule length_takeWhile_le)
  have rest: "drop ?start data = ?rest" by (rule dropWhile_eq_drop[symmetric])
  have len: "length ?rest = length data - ?start"
    unfolding rest[symmetric] by simp
  have skip: "skipIgnore data 0 = Done ?start"
    using skipIgnore_eq[of 0 data] by simp
  have body: "take ?k ?rest = takeWhile (\<lambda>b. \<not> isIgnore b) ?rest"
    by (rule takeWhile_eq_take[symmetric])
  have cond: "(?start + ?k < length data) = (?k < length ?rest)"
    using le unfolding len by linarith
  have find: "findIgnore data ?start ?start =
     (if ?k < length ?rest then
        Done (Some (int (?start + ?k + 1), Some (takeWhile (\<lambda>b. \<not> isIgnore b) ?rest), None))
      else Done None)"
    using findIgnore_eq[OF order_refl le, unfolded rest]
    by (simp only: cond add_diff_cancel_left' body)
  have nonempty: "(?start < length data) = (?rest \<noteq> [])"
    using len le by (metis length_greater_0_conv zero_less_diff)
  have sl: "slice data ?start (length data) = Done ?rest"
    using le by (simp add: slice_def rest len)
  show ?thesis
    unfolding scanLines_def skip
    by (auto simp add: find sl nonempty)
qed

lemma body_nonempty:
  assumes "dropWhile P xs \<noteq> []"
  shows "takeWhile (\<lambda>b. \<not> P b) (dropWhile P xs) \<noteq> []"
proof -
  from assms obtain y ys where eq: "dropWhile P xs = y # ys"
    by (cases "dropWhile P xs") auto
  with hd_dropWhile[OF assms] have "\<not> P y" by simp
  with eq show ?thesis by simp
qed

lemma scanLines_token:
  assumes "scanLines data atEOF = Done (adv, Some t, e)"
  shows "t \<noteq> [] \<and> \<not> list_ex isIgnore t \<and> take (length t) (dropWhile isIgnore data) = t"
proof (cases "dropWhile isIgnore data = []")
  case True
  from assms[unfolded scanLines_eq True] show ?thesis by (simp split: if_splits)
next
  case False
  let ?rest = "dropWhile isIgnore data"
  let ?body = "takeWhile (\<lambda>b. \<not> isIgnore b) ?rest"
  have clean: "\<not> list_ex isIgnore ?body"
    by (auto simp: list_ex_iff dest: set_takeWhileD)
  have pre: "take (length ?body) ?rest = ?body"
    by (rule takeWhile_eq_take[symmetric])
  from assms consider "t = ?body" "length ?body < length ?rest"
    | "t = ?rest" "\<not> length ?body < length ?rest"
    by (auto simp add: scanLines_eq split: if_splits)
  then show ?thesis
  proof cases
    case 1
    with body_nonempty[OF False] clean pre show ?thesis by simp
  next
    case 2
    have "length ?body \<le> length ?rest" by (rule length_takeWhile_le)
    with 2 have "length ?body = length ?rest" by simp
    with pre have "?body = ?rest" by simp
    with 2 body_nonempty[OF False] clean show ?thesis by simp
  qed
qed

text \<open>
  Claim C10. \<open>scanLines\<close> is total and never consumes more than it was given: for every
  buffer and either value of \<open>atEOF\<close> it returns (it does not panic) with a nil error
  and an advance between 0 and \<open>len(data)\<close>, and a token it emits is a slice
  \<open>data[lo:hi]\<close> that lies within \<open>data\<close>.
\<close>

theorem scanLines_total_in_bounds:
  "\<exists>adv tok. scanLines data atEOF = Done (adv, tok, None) \<and> 0 \<le> adv \<and> adv \<le> int (length data) \<and>
     (case tok of
        None \<Rightarrow> True
      | Some t \<Rightarrow> \<exists>lo hi. lo \<le> hi \<and> hi \<le> length data \<and> slice data lo hi = Done t)"
proof -
  let ?start = "length (takeWhile isIgnore data)"
  let ?rest = "dropWhile isIgnore data"
  let ?body = "takeWhile (\<lambda>b. \<not> isIgnore b) ?rest"
  have le: "?start \<le> length data" by (rule length_takeWhile_le)
  have rest: "drop ?start data = ?rest" by (rule dropWhile_eq_drop[symmetric])
  have len: "length ?rest = length data - ?start"
    unfolding rest[symmetric] by simp
  have pre: "take (length ?body) ?rest = ?body"
    by (rule takeWhile_eq_take[symmetric])
  have s1: "length ?body < length ?rest \<Longrightarrow>
      slice data ?start (?start + length ?body) = Done ?body"
    using le len by (simp add: slice_def rest pre)
  have s2: "slice data ?start (length data) = Done ?rest"
    using le by (simp add: slice_def rest len)
  show ?thesis
  proof (cases "atEOF \<and> data = []")
    case True
    then show ?thesis by (simp add: scanLines_eq)
  next
    case ne: False
    show ?thesis
    proof (cases "length ?body < length ?rest")
      case True
      with le len have b: "?start + length ?body + 1 \<le> length data" by linarith
      from True le len have b2: "?start + length ?body \<le> length data" by linarith
      have "\<exists>lo hi. lo \<le> hi \<and> hi \<le> length data \<and> slice data lo hi = Done ?body"
        using s1[OF True] b2 by (intro exI[of _ ?start] exI[of _ "?start + length ?body"]) simp
      with True ne b show ?thesis
        by (simp add: scanLines_eq)
    next
      case False
      have "\<exists>lo hi. lo \<le> hi \<and> hi \<le> length data \<and> slice data lo hi = Done ?rest"
        using s2 le by (intro exI[of _ ?start] exI[of _ "length data"]) simp
      with False ne le show ?thesis
        by (simp add: scanLines_eq)
    qed
  qed
qed

text \<open>The same at the buffer \<open>OK:30\<close>.\<close>

theorem scanLines_total_in_bounds_witness:
  "\<exists>adv tok. scanLines ''OK:30'' False = Done (adv, tok, None) \<and> 0 \<le> adv \<and>
     adv \<le> int (length ''OK:30'') \<and>
     (case tok of
        None \<Rightarrow> True
      | Some t \<Rightarrow> \<exists>lo hi. lo \<le> hi \<and> hi \<le> length ''OK:30'' \<and> slice ''OK:30'' lo hi = Done t)"
  by (rule scanLines_total_in_bounds)

text \<open>
  Claim C4 as it is written fails: with \<open>atEOF = false\<close> and no ignorable byte at or
  after the first byte that is not ignorable, the buffer CR LF \<open>ab\<close> makes \<open>scanLines\<close>
  report two bytes consumed, not zero.
\<close>

theorem scanLines_wait_counterexample:
  "\<not> list_ex isIgnore (dropWhile isIgnore [CHR 0x0D, CHR 0x0A, CHR ''a'', CHR ''b'']) \<and>
   scanLines [CHR 0x0D, CHR 0x0A, CHR ''a'', CHR ''b''] False = Done (2, None, None)"
  by (simp add: scanLines_eq isIgnore_def)

text \<open>
  Claim C4, amended. For every buffer with \<open>atEOF = false\<close> that has no ignorable byte
  at or after its first byte that is not ignorable, \<open>scanLines\<close> produces no line and
  reports as consumed the leading ignorable bytes it skipped; that number is zero
  exactly when the buffer is empty or does not begin with an ignorable byte.
\<close>

theorem scanLines_wait:
  assumes "\<not> list_ex isIgnore (dropWhile isIgnore data)"
  shows "scanLines data False = Done (int (length (takeWhile isIgnore data)), None, None) \<and>
         (length (takeWhile isIgnore data) = 0) = (data = [] \<or> \<not> isIgnore (hd data))"
proof -
  let ?rest = "dropWhile isIgnore data"
  from assms have tw: "takeWhile (\<lambda>b. \<not> isIgnore b) ?rest = ?rest"
    by (simp add: list_ex_iff)
  have "scanLines data False = Done (int (length (takeWhile isIgnore data)), None, None)"
    unfolding scanLines_eq tw by simp
  moreover have "(length (takeWhile isIgnore data) = 0) = (data = [] \<or> \<not> isIgnore (hd data))"
    by (cases data) auto
  ultimately show ?thesis by simp
qed

text \<open>The buffer \<open>:30\<close>: one byte consumed, no line.\<close>

theorem scanLines_wait_witness:
  "\<not> list_ex isIgnore (dropWhile isIgnore [CHR '':'', CHR ''3'', CHR ''0'']) \<and>
   scanLines [CHR '':'', CHR ''3'', CHR ''0''] False = Done (1, None, None)"
  using scanLines_wait[of "[CHR '':'', CHR ''3'', CHR ''0'']"] by (simp add: isIgnore_def)

text \<open>
  Claim C8 as it is written fails: there is no buffer at all for which \<open>scanLines\<close>
  emits a line of length zero.
\<close>

theorem scanLines_empty_line_counterexample:
  "\<not> (\<exists>data atEOF adv e. scanLines data atEOF = Done (adv, Some [], e))"
  using scanLines_token by blast

text \<open>
  Claim C8, amended. The line framer never emits a line of length zero: a line that
  \<open>scanLines\<close> emits is not empty, holds no ignorable byte, and starts right after all
  the leading ignorable bytes of the buffer, so that ignorable bytes next to each other
  are skipped together.
\<close>

theorem scanLines_no_empty_line:
  assumes "scanLines data atEOF = Done (adv, Some t, e)"
  shows "t \<noteq> [] \<and> \<not> list_ex isIgnore t \<and> take (length t) (dropWhile isIgnore data) = t"
  using assms by (rule scanLines_token)

text \<open>
  The buffer \<open>a\<close> CR LF \<open>b\<close>: the first call emits \<open>a\<close> and consumes \<open>a\<close> and CR; the
  call on what is left, LF \<open>b\<close>, at the end of the input emits \<open>b\<close>. No empty line
  stands between them.
\<close>

theorem scanLines_no_empty_line_witness:
  "scanLines [CHR ''a'', CHR 0x0D, CHR 0x0A, CHR ''b''] False = Done (2, Some ''a'', None) \<and>
   scanLines [CHR 0x0A, CHR ''b''] True = Done (2, Some ''b'', None) \<and>
   ''a'' \<noteq> [] \<and> \<not> list_ex isIgnore ''a''"
proof -
  have a: "scanLines [CHR ''a'', CHR 0x0D, CHR 0x0A, CHR ''b''] False = Done (2, Some ''a'', None)"
    by (simp add: scanLines_eq isIgnore_def)
  have b: "scanLines [CHR 0x0A, CHR ''b''] True = Done (2, Some ''b'', None)"
    by (simp add: scanLines_eq isIgnore_def)
  from scanLines_no_empty_line[OF a] a b show ?thesis by simp
qed

end
